theory Spec2Isabelle
  imports Main "HOL-Library.AList"
begin

section \<open>The BondForge package entry point\<close>

text \<open>
  The file \<^verbatim>\<open>src/__init__.py\<close> is the whole visible program, a straight sequence of ten
  statements:
  \<^item> lines 1 to 11: the documentation string, which the file stores under \<^verbatim>\<open>__doc__\<close>;
  \<^item> lines 13 to 17: five assignments of string literals to the metadata names;
  \<^item> lines 19 to 21: three statements \<^verbatim>\<open>from .m import X\<close>, each loading a sibling module of
    the package and binding one class of it;
  \<^item> lines 23 to 27: the assignment of a list of three strings to \<^verbatim>\<open>__all__\<close>.

  The embedding is a small interpreter for these statements over an explicit module
  namespace. The three sibling modules are not part of the visible source, so loading one of
  them is a parameter of the interpreter.
\<close>

subsection \<open>Values, namespaces, exceptions\<close>

type_synonym name = string

text \<open>
  The values that occur: a string, a list of strings, a reference to an object defined
  elsewhere (a class of a sibling module), and a reference to a module, given by its name.
  Two object references are the same object exactly when their identities are equal.
\<close>

datatype pyval = Str string | StrList "string list" | Obj nat | Module name

text \<open>
  A module namespace is a Python dictionary from names to values: an association list in
  insertion order, looked up with \<^const>\<open>map_of\<close>. Binding a name keeps the position of a
  name that is already bound and appends a new one, which is what \<^const>\<open>AList.update\<close> does.
\<close>

type_synonym namespace = "(name \<times> pyval) list"

definition bind :: "name \<Rightarrow> pyval \<Rightarrow> namespace \<Rightarrow> namespace" where
  "bind x v ns = AList.update x v ns"

text \<open>
  Exceptions. \<open>ImportError x m\<close> is the error a statement \<^verbatim>\<open>from .m import x\<close> raises itself
  when module \<open>m\<close> has loaded but does not define \<open>x\<close>; \<open>AttributeError\<close> and \<open>TypeError\<close> are
  raised by a star import over a malformed \<^verbatim>\<open>__all__\<close>; \<open>PyExc\<close> stands for whatever a
  sibling module raises while it loads.
\<close>

datatype exn = ImportError name name | AttributeError name | TypeError | PyExc string

subsection \<open>Loading a sibling module\<close>

text \<open>
  The modules \<^verbatim>\<open>interaction_analyzer\<close>, \<^verbatim>\<open>extended_interaction_analyzer\<close> and
  \<^verbatim>\<open>interaction_visualizer\<close> are not in the visible source. Loading the module named \<open>m\<close> in
  a process whose state outside the package is \<open>w\<close> either does not return (\<open>None\<close>), or
  raises an exception, or yields the namespace of the module; in both returning cases it
  leaves a possibly different outside state. The outside state stands for all of the process
  other than the namespace of the package: the module cache with the entries of the sibling
  modules, files, streams.
\<close>

type_synonym 'w loader = "name \<Rightarrow> 'w \<Rightarrow> ((exn + namespace) \<times> 'w) option"

subsection \<open>Statements and their execution\<close>

datatype stmt = DocString string | Assign name pyval | FromImport name name

text \<open>
  One statement, run in namespace \<open>ns\<close> and outside state \<open>w\<close>. The result is \<open>None\<close> when
  the statement does not return; otherwise it holds the exception raised, if any, and the
  namespace and outside state at that point.

  \<^verbatim>\<open>from .m import x\<close> loads the submodule \<open>m\<close>. An exception of the load passes through as it
  is (the file has no \<^verbatim>\<open>try\<close>). Once the submodule has loaded, the import system binds its
  name \<open>m\<close> in the namespace of the package; then \<open>x\<close> is looked up in the submodule and bound,
  or \<open>ImportError\<close> is raised if the submodule does not define it.
\<close>

fun exec_stmt :: "'w loader \<Rightarrow> stmt \<Rightarrow> namespace \<times> 'w \<Rightarrow> (exn option \<times> namespace \<times> 'w) option" where
  "exec_stmt env (DocString s) (ns, w) = Some (None, bind ''__doc__'' (Str s) ns, w)"
| "exec_stmt env (Assign x v) (ns, w) = Some (None, bind x v ns, w)"
| "exec_stmt env (FromImport m x) (ns, w) =
     (case env m w of
        None \<Rightarrow> None
      | Some (Inl e, w') \<Rightarrow> Some (Some e, ns, w')
      | Some (Inr mns, w') \<Rightarrow>
          (case map_of mns x of
             None \<Rightarrow> Some (Some (ImportError x m), bind m (Module m) ns, w')
           | Some v \<Rightarrow> Some (None, bind x v (bind m (Module m) ns), w')))"

text \<open>A block runs its statements in order and stops at the first exception.\<close>

fun exec :: "'w loader \<Rightarrow> stmt list \<Rightarrow> namespace \<times> 'w \<Rightarrow> (exn option \<times> namespace \<times> 'w) option" where
  "exec env [] (ns, w) = Some (None, ns, w)"
| "exec env (c # cs) (ns, w) =
     (case exec_stmt env c (ns, w) of
        None \<Rightarrow> None
      | Some (Some e, ns', w') \<Rightarrow> Some (Some e, ns', w')
      | Some (None, ns', w') \<Rightarrow> exec env cs (ns', w'))"

subsection \<open>The file\<close>

text \<open>The documentation string of lines 1 to 11: ten lines, each ended by a newline.\<close>

definition docstring :: string where
  "docstring = concat (map (\<lambda>l. l @ [CHR 0x0A])
     [[],
      ''BondForge - Forging Insights from Chemical Bonds'',
      [],
      ''A comprehensive toolkit for analyzing 20 types of chemical interactions'',
      ''in protein structures.'',
      [],
      ''Modules:'',
      ''    interaction_analyzer: Core analyzer with 7 interaction types'',
      ''    extended_interaction_analyzer: Extended analyzer with 20 interaction types'',
      ''    interaction_visualizer: Visualization and plotting tools''])"

definition init_body :: "stmt list" where
  "init_body =
     [DocString docstring,
      Assign ''__version__'' (Str ''1.0.0''),
      Assign ''__author__'' (Str ''Ayeh Bolouki''),
      Assign ''__email__'' (Str ''ayehbolouki1988@gmail.com''),
      Assign ''__package_name__'' (Str ''BondForge''),
      Assign ''__tagline__'' (Str ''Forging Insights from Chemical Bonds''),
      FromImport ''interaction_analyzer'' ''ProteinInteractionAnalyzer'',
      FromImport ''extended_interaction_analyzer'' ''ExtendedProteinInteractionAnalyzer'',
      FromImport ''interaction_visualizer'' ''InteractionVisualizer'',
      Assign ''__all__''
        (StrList [''ProteinInteractionAnalyzer'',
                  ''ExtendedProteinInteractionAnalyzer'',
                  ''InteractionVisualizer''])]"

text \<open>
  Loading the package runs the file in the namespace \<open>ns0\<close> that the runtime has prepared for
  the new module (it holds \<^verbatim>\<open>__name__\<close>, \<^verbatim>\<open>__path__\<close> and the like; the statements of the file
  never read it).
\<close>

definition load :: "'w loader \<Rightarrow> namespace \<Rightarrow> 'w \<Rightarrow> (exn option \<times> namespace \<times> 'w) option" where
  "load env ns0 w = exec env init_body (ns0, w)"

text \<open>
  The first six statements load no module. This is the namespace they leave, read off a run
  of them (the loader is never called).
\<close>

definition after_assignments :: "namespace \<Rightarrow> namespace" where
  "after_assignments ns0 =
     (case exec (\<lambda>m u. None) (take 6 init_body) (ns0, ()) of
        Some (r, ns, u) \<Rightarrow> ns
      | None \<Rightarrow> ns0)"

subsection \<open>The names the file binds\<close>

text \<open>The names a statement binds when it completes.\<close>

fun targets :: "stmt \<Rightarrow> name list" where
  "targets (DocString s) = [''__doc__'']"
| "targets (Assign x v) = [x]"
| "targets (FromImport m x) = [m, x]"


text \<open>The targets of lines 13 to 17, and the names imported at lines 19 to 21 with their modules.\<close>

definition metadata_names :: "name list" where
  "metadata_names =
     [''__version__'', ''__author__'', ''__email__'', ''__package_name__'', ''__tagline__'']"

definition imported :: "(name \<times> name) list" where
  "imported =
     [(''interaction_analyzer'', ''ProteinInteractionAnalyzer''),
      (''extended_interaction_analyzer'', ''ExtendedProteinInteractionAnalyzer''),
      (''interaction_visualizer'', ''InteractionVisualizer'')]"

definition module_names :: "name list" where
  "module_names = map fst imported"

definition class_names :: "name list" where
  "class_names = map snd imported"

text \<open>
  The two ways the statement \<^verbatim>\<open>from .m import x\<close> can end, in terms of the load of \<open>m\<close>:
  it resolves \<open>x\<close> to a value, or it raises, either with the exception of the load or, the
  module having loaded without \<open>x\<close>, with an \<open>ImportError\<close> of its own.
\<close>

definition import_resolves :: "'w loader \<Rightarrow> name \<Rightarrow> name \<Rightarrow> 'w \<Rightarrow> pyval \<Rightarrow> 'w \<Rightarrow> bool" where
  "import_resolves env m x w v w' \<longleftrightarrow>
     (\<exists>mns. env m w = Some (Inr mns, w') \<and> map_of mns x = Some v)"

definition import_raises :: "'w loader \<Rightarrow> name \<Rightarrow> name \<Rightarrow> 'w \<Rightarrow> exn \<Rightarrow> 'w \<Rightarrow> bool" where
  "import_raises env m x w e w' \<longleftrightarrow>
     env m w = Some (Inl e, w') \<or>
     (\<exists>mns. env m w = Some (Inr mns, w') \<and> map_of mns x = None \<and> e = ImportError x m)"


subsection \<open>Importing the package\<close>

text \<open>
  The import statement of the language, seen from a client of the package. The runtime keeps
  a cache of loaded modules: if the package is in it, the import returns the cached module
  and runs nothing; otherwise the file is run in a fresh namespace \<open>ns0\<close>, and the module is
  kept in the cache only if the run raised nothing. \<open>package\<close> is the cache entry of this
  package, \<open>outside\<close> is all other state of the process.
\<close>

record 'w process =
  package :: "namespace option"
  outside :: 'w

definition import_pkg ::
  "'w loader \<Rightarrow> namespace \<Rightarrow> 'w process \<Rightarrow> ((exn + namespace) \<times> 'w process) option" where
  "import_pkg env ns0 st =
     (case package st of
        Some ns \<Rightarrow> Some (Inr ns, st)
      | None \<Rightarrow>
          (case load env ns0 (outside st) of
             None \<Rightarrow> None
           | Some (Some e, ns, w') \<Rightarrow> Some (Inl e, st\<lparr>outside := w'\<rparr>)
           | Some (None, ns, w') \<Rightarrow> Some (Inr ns, \<lparr>package = Some ns, outside = w'\<rparr>)))"

text \<open>\<open>n\<close> imports one after the other, with the result of each.\<close>

fun import_seq ::
  "'w loader \<Rightarrow> namespace \<Rightarrow> nat \<Rightarrow> 'w process \<Rightarrow> ((exn + namespace) list \<times> 'w process) option" where
  "import_seq env ns0 0 st = Some ([], st)"
| "import_seq env ns0 (Suc n) st =
     (case import_pkg env ns0 st of
        None \<Rightarrow> None
      | Some (r, st') \<Rightarrow>
          (case import_seq env ns0 n st' of
             None \<Rightarrow> None
           | Some (rs, st'') \<Rightarrow> Some (r # rs, st'')))"

text \<open>
  What code running in the process can do to the package afterwards:
  \<^item> \<open>Import\<close>: import it again;
  \<^item> \<open>Reload\<close>: run the file again in the namespace of the cached module, which stays in the
    cache whether or not the run raises (\<^verbatim>\<open>importlib.reload\<close>);
  \<^item> \<open>SetAttr\<close>, \<open>DelAttr\<close>: assign to, or delete, an attribute of the cached module;
  \<^item> \<open>Uncache\<close>: remove the package from the module cache;
  \<^item> \<open>Elsewhere\<close>: change the state outside the package.
  A step that raises (reloading or touching a package that is not cached) leaves the state as
  it is. \<open>None\<close> is a step that does not return.
\<close>

datatype 'w action =
  Import | Reload | SetAttr name pyval | DelAttr name | Uncache | Elsewhere 'w

fun step :: "'w loader \<Rightarrow> namespace \<Rightarrow> 'w action \<Rightarrow> 'w process \<Rightarrow> 'w process option" where
  "step env ns0 Import st =
     (case import_pkg env ns0 st of None \<Rightarrow> None | Some (r, st') \<Rightarrow> Some st')"
| "step env ns0 Reload st =
     (case package st of
        None \<Rightarrow> Some st
      | Some ns \<Rightarrow>
          (case load env ns (outside st) of
             None \<Rightarrow> None
           | Some (r, ns', w') \<Rightarrow> Some \<lparr>package = Some ns', outside = w'\<rparr>))"
| "step env ns0 (SetAttr x v) st =
     Some (st\<lparr>package := map_option (bind x v) (package st)\<rparr>)"
| "step env ns0 (DelAttr x) st =
     Some (st\<lparr>package := map_option (AList.delete x) (package st)\<rparr>)"
| "step env ns0 Uncache st = Some (st\<lparr>package := None\<rparr>)"
| "step env ns0 (Elsewhere w) st = Some (st\<lparr>outside := w\<rparr>)"

fun run :: "'w loader \<Rightarrow> namespace \<Rightarrow> 'w action list \<Rightarrow> 'w process \<Rightarrow> 'w process option" where
  "run env ns0 [] st = Some st"
| "run env ns0 (a # as) st =
     (case step env ns0 a st of None \<Rightarrow> None | Some st' \<Rightarrow> run env ns0 as st')"

text \<open>
  The steps that run only the import machinery or code outside the package: they assign no
  attribute of the package from outside and do not remove it from the cache.
\<close>

fun reimports :: "'w action \<Rightarrow> bool" where
  "reimports Import = True"
| "reimports Reload = True"
| "reimports (Elsewhere w) = True"
| "reimports (SetAttr x v) = False"
| "reimports (DelAttr x) = False"
| "reimports Uncache = False"

text \<open>A namespace in which the five metadata names hold the literals of lines 13 to 17.\<close>

definition holds_metadata :: "namespace \<Rightarrow> bool" where
  "holds_metadata ns \<longleftrightarrow>
     map_of ns ''__version__'' = Some (Str ''1.0.0'') \<and>
     map_of ns ''__author__'' = Some (Str ''Ayeh Bolouki'') \<and>
     map_of ns ''__email__'' = Some (Str ''ayehbolouki1988@gmail.com'') \<and>
     map_of ns ''__package_name__'' = Some (Str ''BondForge'') \<and>
     map_of ns ''__tagline__'' = Some (Str ''Forging Insights from Chemical Bonds'')"

subsection \<open>Star import\<close>

text \<open>
  \<^verbatim>\<open>from package import *\<close>, as the language defines it: with \<^verbatim>\<open>__all__\<close> bound, the names it
  lists, each of which must be bound in the module; without it, every bound name that does
  not begin with an underscore.
\<close>

fun underscored :: "name \<Rightarrow> bool" where
  "underscored [] = False"
| "underscored (c # cs) = (c = CHR ''_'')"

fun export :: "namespace \<Rightarrow> name list \<Rightarrow> exn + namespace" where
  "export ns [] = Inr []"
| "export ns (x # xs) =
     (case map_of ns x of
        None \<Rightarrow> Inl (AttributeError x)
      | Some v \<Rightarrow> (case export ns xs of Inl e \<Rightarrow> Inl e | Inr bs \<Rightarrow> Inr ((x, v) # bs)))"

definition star_import :: "namespace \<Rightarrow> exn + namespace" where
  "star_import ns =
     (case map_of ns ''__all__'' of
        None \<Rightarrow> Inr (filter (\<lambda>(x, v). \<not> underscored x) ns)
      | Some (StrList xs) \<Rightarrow> export ns xs
      | Some (Str s) \<Rightarrow> export ns (map (\<lambda>c. [c]) s)
      | Some (Obj i) \<Rightarrow> Inl TypeError
      | Some (Module m) \<Rightarrow> Inl TypeError)"

subsection \<open>Concrete settings\<close>

text \<open>
  Sibling modules to run the file against. The outside state is the number of module loads
  so far. In \<open>sample_env\<close> all three modules load and define their classes; in \<open>broken_env\<close>
  the second one raises; in \<open>noname_env\<close> all three load, but the first one does not define
  its class.
\<close>

definition sample_env :: "nat loader" where
  "sample_env m w =
     (if m = ''interaction_analyzer''
        then Some (Inr [(''ProteinInteractionAnalyzer'', Obj 1)], Suc w)
      else if m = ''extended_interaction_analyzer''
        then Some (Inr [(''ProteinInteractionAnalyzer'', Obj 1),
                        (''ExtendedProteinInteractionAnalyzer'', Obj 2)], Suc w)
      else if m = ''interaction_visualizer''
        then Some (Inr [(''InteractionVisualizer'', Obj 3)], Suc w)
      else Some (Inl (PyExc ''ModuleNotFoundError''), w))"

definition broken_env :: "nat loader" where
  "broken_env m w =
     (if m = ''extended_interaction_analyzer''
        then Some (Inl (PyExc ''ModuleNotFoundError''), Suc w)
      else sample_env m w)"

definition noname_env :: "nat loader" where
  "noname_env m w =
     (if m = ''interaction_analyzer'' then Some (Inr [], Suc w) else sample_env m w)"

text \<open>The namespaces these settings produce from an empty one.\<close>

definition assigned :: namespace where
  "assigned =
     [(''__doc__'', Str docstring),
      (''__version__'', Str ''1.0.0''),
      (''__author__'', Str ''Ayeh Bolouki''),
      (''__email__'', Str ''ayehbolouki1988@gmail.com''),
      (''__package_name__'', Str ''BondForge''),
      (''__tagline__'', Str ''Forging Insights from Chemical Bonds'')]"

definition loaded :: namespace where
  "loaded =
     assigned @
     [(''interaction_analyzer'', Module ''interaction_analyzer''),
      (''ProteinInteractionAnalyzer'', Obj 1),
      (''extended_interaction_analyzer'', Module ''extended_interaction_analyzer''),
      (''ExtendedProteinInteractionAnalyzer'', Obj 2),
      (''interaction_visualizer'', Module ''interaction_visualizer''),
      (''InteractionVisualizer'', Obj 3),
      (''__all__'', StrList [''ProteinInteractionAnalyzer'',
                             ''ExtendedProteinInteractionAnalyzer'',
                             ''InteractionVisualizer''])]"

definition half_loaded :: namespace where
  "half_loaded =
     assigned @
     [(''interaction_analyzer'', Module ''interaction_analyzer''),
      (''ProteinInteractionAnalyzer'', Obj 1)]"

section \<open>Properties of execution\<close>

lemma map_of_bind: "map_of (bind x v ns) = (map_of ns)(x \<mapsto> v)"
  by (simp add: bind_def update_conv')


lemma exec_import_ok:
  "exec_stmt env (FromImport m x) (ns, w) = Some (None, ns', w') \<longleftrightarrow>
     (\<exists>v. import_resolves env m x w v w' \<and> ns' = bind x v (bind m (Module m) ns))"
  by (auto simp: import_resolves_def split: option.splits sum.splits)

lemma exec_import_raise:
  "exec_stmt env (FromImport m x) (ns, w) = Some (Some e, ns', w') \<longleftrightarrow>
     env m w = Some (Inl e, w') \<and> ns' = ns \<or>
     (\<exists>mns. env m w = Some (Inr mns, w') \<and> map_of mns x = None \<and>
        e = ImportError x m \<and> ns' = bind m (Module m) ns)"
  by (auto split: option.splits sum.splits)

lemma exec_import_raises:
  "(\<exists>ns'. exec_stmt env (FromImport m x) (ns, w) = Some (Some e, ns', w')) \<longleftrightarrow>
     import_raises env m x w e w'"
  unfolding exec_import_raise import_raises_def by blast



lemma exec_stmt_frame:
  assumes "exec_stmt env c (ns, w) = Some (r, ns', w')" and "x \<notin> set (targets c)"
  shows "map_of ns' x = map_of ns x"
  using assms by (cases c) (auto simp: map_of_bind split: option.splits sum.splits)

lemma exec_stmt_rel:
  assumes "exec_stmt env c (ns, w) = Some (r, ns', w')"
    and "\<forall>m v q v'. env m v = Some (q, v') \<longrightarrow> R v v'" and "reflp R"
  shows "R w w'"
proof (cases c)
  case (FromImport m x)
  with assms(1) obtain q where "env m w = Some (q, w')"
    by (auto split: option.splits sum.splits)
  with assms(2) show ?thesis by blast
qed (use assms in \<open>auto simp: reflp_def\<close>)

lemma exec_frame:
  assumes "exec env cs (ns, w) = Some (r, ns', w')" and "x \<notin> set (concat (map targets cs))"
  shows "map_of ns' x = map_of ns x"
  using assms
proof (induction cs arbitrary: ns w)
  case Nil
  then show ?case by simp
next
  case (Cons c cs)
  from Cons.prems(1) obtain q ns1 w1 where
    c: "exec_stmt env c (ns, w) = Some (q, ns1, w1)"
    by (auto split: option.splits)
  from Cons.prems(2) have x: "x \<notin> set (targets c)" "x \<notin> set (concat (map targets cs))" by auto
  have 1: "map_of ns1 x = map_of ns x"
    using exec_stmt_frame [OF c x(1)] .
  show ?case
  proof (cases q)
    case None
    with Cons.prems(1) c have "exec env cs (ns1, w1) = Some (r, ns', w')" by simp
    from Cons.IH [OF this x(2)] 1 show ?thesis by simp
  next
    case (Some e)
    with Cons.prems(1) c have "ns' = ns1" by simp
    with 1 show ?thesis by simp
  qed
qed



lemma exec_append:
  "exec env (cs @ ds) (ns, w) =
     (case exec env cs (ns, w) of
        None \<Rightarrow> None
      | Some (Some e, ns', w') \<Rightarrow> Some (Some e, ns', w')
      | Some (None, ns', w') \<Rightarrow> exec env ds (ns', w'))"
  by (induction cs arbitrary: ns w) (auto split: option.splits)


lemma exec_rel:
  assumes "exec env cs (ns, w) = Some (r, ns', w')"
    and "\<forall>m v q v'. env m v = Some (q, v') \<longrightarrow> R v v'" and "reflp R" and "transp R"
  shows "R w w'"
  using assms(1)
proof (induction cs arbitrary: ns w)
  case Nil
  with assms(3) show ?case by (simp add: reflp_def)
next
  case (Cons c cs)
  from Cons.prems obtain q ns1 w1 where
    c: "exec_stmt env c (ns, w) = Some (q, ns1, w1)"
    by (auto split: option.splits)
  have 1: "R w w1" using exec_stmt_rel [OF c assms(2,3)] .
  show ?case
  proof (cases q)
    case None
    with Cons.prems c have "exec env cs (ns1, w1) = Some (r, ns', w')" by simp
    from Cons.IH [OF this] 1 assms(4) show ?thesis by (auto dest: transpD)
  next
    case (Some e)
    with Cons.prems c 1 show ?thesis by simp
  qed
qed

lemma exec_Cons_ok:
  "exec env (c # cs) (ns, w) = Some (None, ns', w') \<longleftrightarrow>
     (\<exists>ns1 w1. exec_stmt env c (ns, w) = Some (None, ns1, w1) \<and>
        exec env cs (ns1, w1) = Some (None, ns', w'))"
  by (auto split: option.splits)

lemma exec_Cons_raise:
  "exec env (c # cs) (ns, w) = Some (Some e, ns', w') \<longleftrightarrow>
     exec_stmt env c (ns, w) = Some (Some e, ns', w') \<or>
     (\<exists>ns1 w1. exec_stmt env c (ns, w) = Some (None, ns1, w1) \<and>
        exec env cs (ns1, w1) = Some (Some e, ns', w'))"
  by (auto split: option.splits)

lemma exec_header:
  "exec env (take 6 init_body) (ns0, w) = Some (None, after_assignments ns0, w)"
  by (simp add: init_body_def after_assignments_def)

lemma targets_init_body:
  "concat (map targets init_body) =
     ''__doc__'' # metadata_names @
     [''interaction_analyzer'', ''ProteinInteractionAnalyzer'',
      ''extended_interaction_analyzer'', ''ExtendedProteinInteractionAnalyzer'',
      ''interaction_visualizer'', ''InteractionVisualizer'', ''__all__'']"
  by (simp add: init_body_def metadata_names_def)

lemma names_init_body:
  "set (concat (map targets init_body)) =
     {''__doc__''} \<union> set metadata_names \<union> set module_names \<union> set class_names \<union> {''__all__''}"
  unfolding targets_init_body module_names_def class_names_def imported_def
  by (simp add: insert_commute Un_commute Un_left_commute)

lemma load_split:
  assumes "load env ns0 w = Some (r, ns, w')"
  shows "exec env (drop 6 init_body) (after_assignments ns0, w) = Some (r, ns, w')"
proof -
  have "load env ns0 w = exec env (take 6 init_body @ drop 6 init_body) (ns0, w)"
    by (simp add: load_def)
  also have "\<dots> = exec env (drop 6 init_body) (after_assignments ns0, w)"
    by (simp only: exec_append exec_header option.case prod.case)
  finally show ?thesis using assms by simp
qed

lemma metadata_bound:
  "map_of (after_assignments ns0) ''__version__'' = Some (Str ''1.0.0'')"
  "map_of (after_assignments ns0) ''__author__'' = Some (Str ''Ayeh Bolouki'')"
  "map_of (after_assignments ns0) ''__email__'' = Some (Str ''ayehbolouki1988@gmail.com'')"
  "map_of (after_assignments ns0) ''__package_name__'' = Some (Str ''BondForge'')"
  "map_of (after_assignments ns0) ''__tagline__'' = Some (Str ''Forging Insights from Chemical Bonds'')"
  by (simp_all add: after_assignments_def init_body_def map_of_bind)

lemma metadata_kept:
  assumes "exec env (drop 6 init_body) (n, w) = Some (r, ns, w')" and "x \<in> set metadata_names"
  shows "map_of ns x = map_of n x"
proof -
  have "concat (map targets (drop 6 init_body)) =
     [''interaction_analyzer'', ''ProteinInteractionAnalyzer'',
      ''extended_interaction_analyzer'', ''ExtendedProteinInteractionAnalyzer'',
      ''interaction_visualizer'', ''InteractionVisualizer'', ''__all__'']"
    by (simp add: init_body_def)
  moreover have "x \<notin> set [''interaction_analyzer'', ''ProteinInteractionAnalyzer'',
      ''extended_interaction_analyzer'', ''ExtendedProteinInteractionAnalyzer'',
      ''interaction_visualizer'', ''InteractionVisualizer'', ''__all__'']"
    using assms(2) by (auto simp: metadata_names_def)
  ultimately have "x \<notin> set (concat (map targets (drop 6 init_body)))" by simp
  from exec_frame [OF assms(1) this] show ?thesis .
qed

lemma load_rest: "load env ns0 w = exec env (drop 6 init_body) (after_assignments ns0, w)"
proof -
  have "load env ns0 w = exec env (take 6 init_body @ drop 6 init_body) (ns0, w)"
    by (simp add: load_def)
  also have "\<dots> = exec env (drop 6 init_body) (after_assignments ns0, w)"
    by (simp only: exec_append exec_header option.case prod.case)
  finally show ?thesis .
qed

lemma drop_init_body:
  "drop 6 init_body =
     [FromImport ''interaction_analyzer'' ''ProteinInteractionAnalyzer'',
      FromImport ''extended_interaction_analyzer'' ''ExtendedProteinInteractionAnalyzer'',
      FromImport ''interaction_visualizer'' ''InteractionVisualizer'',
      Assign ''__all__'' (StrList class_names)]"
  by (simp add: init_body_def class_names_def imported_def)

lemma exec_four_ok:
  "exec env [i1, i2, i3, Assign x v] (n, w) = Some (None, ns, w') \<longleftrightarrow>
     (\<exists>n1 w1 n2 w2 n3.
        exec_stmt env i1 (n, w) = Some (None, n1, w1) \<and>
        exec_stmt env i2 (n1, w1) = Some (None, n2, w2) \<and>
        exec_stmt env i3 (n2, w2) = Some (None, n3, w') \<and>
        ns = bind x v n3)"
  by (simp add: exec_Cons_ok del: exec.simps(2) exec_stmt.simps(3)) blast

lemma exec_four_raise:
  "exec env [i1, i2, i3, Assign x v] (n, w) = Some (Some e, ns, w') \<longleftrightarrow>
     exec_stmt env i1 (n, w) = Some (Some e, ns, w') \<or>
     (\<exists>n1 w1.
        exec_stmt env i1 (n, w) = Some (None, n1, w1) \<and>
        (exec_stmt env i2 (n1, w1) = Some (Some e, ns, w') \<or>
         (\<exists>n2 w2.
            exec_stmt env i2 (n1, w1) = Some (None, n2, w2) \<and>
            exec_stmt env i3 (n2, w2) = Some (Some e, ns, w'))))"
  by (simp add: exec_Cons_ok exec_Cons_raise del: exec.simps(2) exec_stmt.simps(1) exec_stmt.simps(3))

lemma three_imports_ok:
  "exec env [FromImport m1 x1, FromImport m2 x2, FromImport m3 x3, Assign y u] (n, w)
     = Some (None, ns, w') \<longleftrightarrow>
     (\<exists>v1 w1 v2 w2 v3.
        import_resolves env m1 x1 w v1 w1 \<and>
        import_resolves env m2 x2 w1 v2 w2 \<and>
        import_resolves env m3 x3 w2 v3 w' \<and>
        ns = bind y u
              (bind x3 v3 (bind m3 (Module m3)
                (bind x2 v2 (bind m2 (Module m2)
                  (bind x1 v1 (bind m1 (Module m1) n)))))))"
  unfolding exec_four_ok exec_import_ok by blast

lemma import_ok_D:
  "exec_stmt env (FromImport m x) (n, w) = Some (None, n', w') \<Longrightarrow> \<exists>v. import_resolves env m x w v w'"
  unfolding exec_import_ok by blast

lemma import_ok_I:
  "import_resolves env m x w v w' \<Longrightarrow>
   exec_stmt env (FromImport m x) (n, w) = Some (None, bind x v (bind m (Module m) n), w')"
  unfolding exec_import_ok by blast

lemma import_raise_D:
  "exec_stmt env (FromImport m x) (n, w) = Some (Some e, ns, w') \<Longrightarrow> import_raises env m x w e w'"
  using exec_import_raises [of env m x n w e w'] by blast

lemma import_raise_I:
  "import_raises env m x w e w' \<Longrightarrow> \<exists>ns. exec_stmt env (FromImport m x) (n, w) = Some (Some e, ns, w')"
  using exec_import_raises [of env m x n w e w'] by blast

lemma three_imports_raise:
  "(\<exists>ns. exec env [FromImport m1 x1, FromImport m2 x2, FromImport m3 x3, Assign y u] (n, w)
     = Some (Some e, ns, w')) \<longleftrightarrow>
     import_raises env m1 x1 w e w' \<or>
     (\<exists>v1 w1.
        import_resolves env m1 x1 w v1 w1 \<and>
        (import_raises env m2 x2 w1 e w' \<or>
         (\<exists>v2 w2.
            import_resolves env m2 x2 w1 v2 w2 \<and>
            import_raises env m3 x3 w2 e w')))"
  (is "?L \<longleftrightarrow> ?R")
proof
  assume ?L
  then obtain ns where
    "exec_stmt env (FromImport m1 x1) (n, w) = Some (Some e, ns, w') \<or>
     (\<exists>n1 w1.
        exec_stmt env (FromImport m1 x1) (n, w) = Some (None, n1, w1) \<and>
        (exec_stmt env (FromImport m2 x2) (n1, w1) = Some (Some e, ns, w') \<or>
         (\<exists>n2 w2.
            exec_stmt env (FromImport m2 x2) (n1, w1) = Some (None, n2, w2) \<and>
            exec_stmt env (FromImport m3 x3) (n2, w2) = Some (Some e, ns, w'))))"
    unfolding exec_four_raise by (elim exE)
  then consider
    (first) "exec_stmt env (FromImport m1 x1) (n, w) = Some (Some e, ns, w')"
  | (second) n1 w1 where
      "exec_stmt env (FromImport m1 x1) (n, w) = Some (None, n1, w1)"
      "exec_stmt env (FromImport m2 x2) (n1, w1) = Some (Some e, ns, w')"
  | (third) n1 w1 n2 w2 where
      "exec_stmt env (FromImport m1 x1) (n, w) = Some (None, n1, w1)"
      "exec_stmt env (FromImport m2 x2) (n1, w1) = Some (None, n2, w2)"
      "exec_stmt env (FromImport m3 x3) (n2, w2) = Some (Some e, ns, w')"
    by (elim disjE exE conjE)
  then show ?R
  proof cases
    case first
    then show ?thesis by (intro disjI1 import_raise_D)
  next
    case second
    from import_ok_D [OF second(1)] obtain v1 where "import_resolves env m1 x1 w v1 w1" ..
    with import_raise_D [OF second(2)] show ?thesis by blast
  next
    case third
    from import_ok_D [OF third(1)] obtain v1 where "import_resolves env m1 x1 w v1 w1" ..
    moreover from import_ok_D [OF third(2)] obtain v2 where "import_resolves env m2 x2 w1 v2 w2" ..
    ultimately show ?thesis using import_raise_D [OF third(3)] by blast
  qed
next
  assume ?R
  then consider
    (first) "import_raises env m1 x1 w e w'"
  | (second) v1 w1 where "import_resolves env m1 x1 w v1 w1" "import_raises env m2 x2 w1 e w'"
  | (third) v1 w1 v2 w2 where "import_resolves env m1 x1 w v1 w1"
      "import_resolves env m2 x2 w1 v2 w2" "import_raises env m3 x3 w2 e w'"
    by (elim disjE exE conjE)
  then show ?L
  proof cases
    case first
    from import_raise_I [OF this, of n] obtain ns where
      "exec_stmt env (FromImport m1 x1) (n, w) = Some (Some e, ns, w')" ..
    then show ?thesis unfolding exec_four_raise by (intro exI [of _ ns] disjI1)
  next
    case second
    let ?n1 = "bind x1 v1 (bind m1 (Module m1) n)"
    have 1: "exec_stmt env (FromImport m1 x1) (n, w) = Some (None, ?n1, w1)"
      using second(1) by (rule import_ok_I)
    from import_raise_I [OF second(2), of ?n1] obtain ns where
      2: "exec_stmt env (FromImport m2 x2) (?n1, w1) = Some (Some e, ns, w')" ..
    show ?thesis unfolding exec_four_raise by (rule exI [of _ ns]) (use 1 2 in blast)
  next
    case third
    let ?n1 = "bind x1 v1 (bind m1 (Module m1) n)"
    let ?n2 = "bind x2 v2 (bind m2 (Module m2) ?n1)"
    have 1: "exec_stmt env (FromImport m1 x1) (n, w) = Some (None, ?n1, w1)"
      using third(1) by (rule import_ok_I)
    have 2: "exec_stmt env (FromImport m2 x2) (?n1, w1) = Some (None, ?n2, w2)"
      using third(2) by (rule import_ok_I)
    from import_raise_I [OF third(3), of ?n2] obtain ns where
      3: "exec_stmt env (FromImport m3 x3) (?n2, w2) = Some (Some e, ns, w')" ..
    show ?thesis unfolding exec_four_raise by (rule exI [of _ ns]) (use 1 2 3 in blast)
  qed
qed

lemma load_ok_iff:
  "load env ns0 w = Some (None, ns, w') \<longleftrightarrow>
     (\<exists>v1 w1 v2 w2 v3.
        import_resolves env ''interaction_analyzer'' ''ProteinInteractionAnalyzer'' w v1 w1 \<and>
        import_resolves env ''extended_interaction_analyzer'' ''ExtendedProteinInteractionAnalyzer''
          w1 v2 w2 \<and>
        import_resolves env ''interaction_visualizer'' ''InteractionVisualizer'' w2 v3 w' \<and>
        ns = bind ''__all__'' (StrList class_names)
              (bind ''InteractionVisualizer'' v3
                (bind ''interaction_visualizer'' (Module ''interaction_visualizer'')
                  (bind ''ExtendedProteinInteractionAnalyzer'' v2
                    (bind ''extended_interaction_analyzer'' (Module ''extended_interaction_analyzer'')
                      (bind ''ProteinInteractionAnalyzer'' v1
                        (bind ''interaction_analyzer'' (Module ''interaction_analyzer'')
                          (after_assignments ns0))))))))"
  unfolding load_rest drop_init_body by (rule three_imports_ok)

lemma load_raise_iff:
  "(\<exists>ns. load env ns0 w = Some (Some e, ns, w')) \<longleftrightarrow>
     import_raises env ''interaction_analyzer'' ''ProteinInteractionAnalyzer'' w e w' \<or>
     (\<exists>v1 w1.
        import_resolves env ''interaction_analyzer'' ''ProteinInteractionAnalyzer'' w v1 w1 \<and>
        (import_raises env ''extended_interaction_analyzer'' ''ExtendedProteinInteractionAnalyzer''
           w1 e w' \<or>
         (\<exists>v2 w2.
            import_resolves env ''extended_interaction_analyzer''
              ''ExtendedProteinInteractionAnalyzer'' w1 v2 w2 \<and>
            import_raises env ''interaction_visualizer'' ''InteractionVisualizer'' w2 e w')))"
  unfolding load_rest drop_init_body by (rule three_imports_raise)

lemma sample_load: "load sample_env [] 0 = Some (None, loaded, 3)"
  by (simp add: load_def init_body_def sample_env_def bind_def loaded_def assigned_def)

lemma broken_load:
  "load broken_env [] 0 = Some (Some (PyExc ''ModuleNotFoundError''), half_loaded, 2)"
  by (simp add: load_def init_body_def broken_env_def sample_env_def bind_def half_loaded_def
      assigned_def)

lemma load_metadata:
  assumes "load env ns0 w = Some (r, ns, w')"
  shows "map_of ns ''__version__'' = Some (Str ''1.0.0'')"
    and "map_of ns ''__author__'' = Some (Str ''Ayeh Bolouki'')"
    and "map_of ns ''__email__'' = Some (Str ''ayehbolouki1988@gmail.com'')"
    and "map_of ns ''__package_name__'' = Some (Str ''BondForge'')"
    and "map_of ns ''__tagline__'' = Some (Str ''Forging Insights from Chemical Bonds'')"
proof -
  have 2: "exec env (drop 6 init_body) (after_assignments ns0, w) = Some (r, ns, w')"
    using assms by (rule load_split)
  have k: "map_of ns x = map_of (after_assignments ns0) x" if "x \<in> set metadata_names" for x
    using 2 that by (rule metadata_kept)
  show "map_of ns ''__version__'' = Some (Str ''1.0.0'')"
    and "map_of ns ''__author__'' = Some (Str ''Ayeh Bolouki'')"
    and "map_of ns ''__email__'' = Some (Str ''ayehbolouki1988@gmail.com'')"
    and "map_of ns ''__package_name__'' = Some (Str ''BondForge'')"
    and "map_of ns ''__tagline__'' = Some (Str ''Forging Insights from Chemical Bonds'')"
    using metadata_bound [of ns0] by (simp_all add: k metadata_names_def)
qed

lemma load_classes:
  assumes "load env ns0 w = Some (None, ns, w')"
  shows "\<exists>v1 w1 v2 w2 v3.
           import_resolves env ''interaction_analyzer'' ''ProteinInteractionAnalyzer'' w v1 w1 \<and>
           import_resolves env ''extended_interaction_analyzer''
             ''ExtendedProteinInteractionAnalyzer'' w1 v2 w2 \<and>
           import_resolves env ''interaction_visualizer'' ''InteractionVisualizer'' w2 v3 w' \<and>
           map_of ns ''ProteinInteractionAnalyzer'' = Some v1 \<and>
           map_of ns ''ExtendedProteinInteractionAnalyzer'' = Some v2 \<and>
           map_of ns ''InteractionVisualizer'' = Some v3 \<and>
           map_of ns ''__all__'' = Some (StrList class_names)"
proof -
  from assms obtain v1 w1 v2 w2 v3 where
    i: "import_resolves env ''interaction_analyzer'' ''ProteinInteractionAnalyzer'' w v1 w1"
      "import_resolves env ''extended_interaction_analyzer''
         ''ExtendedProteinInteractionAnalyzer'' w1 v2 w2"
      "import_resolves env ''interaction_visualizer'' ''InteractionVisualizer'' w2 v3 w'" and
    ns: "ns = bind ''__all__'' (StrList class_names)
              (bind ''InteractionVisualizer'' v3
                (bind ''interaction_visualizer'' (Module ''interaction_visualizer'')
                  (bind ''ExtendedProteinInteractionAnalyzer'' v2
                    (bind ''extended_interaction_analyzer'' (Module ''extended_interaction_analyzer'')
                      (bind ''ProteinInteractionAnalyzer'' v1
                        (bind ''interaction_analyzer'' (Module ''interaction_analyzer'')
                          (after_assignments ns0)))))))"
    unfolding load_ok_iff by (elim exE conjE)
  have "map_of ns ''ProteinInteractionAnalyzer'' = Some v1"
    "map_of ns ''ExtendedProteinInteractionAnalyzer'' = Some v2"
    "map_of ns ''InteractionVisualizer'' = Some v3"
    "map_of ns ''__all__'' = Some (StrList class_names)"
    by (simp_all add: ns map_of_bind)
  with i show ?thesis by blast
qed

lemma export_class_names:
  assumes "map_of ns ''ProteinInteractionAnalyzer'' = Some v1"
    and "map_of ns ''ExtendedProteinInteractionAnalyzer'' = Some v2"
    and "map_of ns ''InteractionVisualizer'' = Some v3"
  shows "export ns [''ProteinInteractionAnalyzer'', ''ExtendedProteinInteractionAnalyzer'',
                    ''InteractionVisualizer'']
         = Inr [(''ProteinInteractionAnalyzer'', v1), (''ExtendedProteinInteractionAnalyzer'', v2),
                (''InteractionVisualizer'', v3)]"
  using assms by simp

lemma import_pkg_cached:
  assumes "package st = Some ns"
  shows "import_pkg env ns0 st = Some (Inr ns, st)"
  using assms by (simp add: import_pkg_def)

lemma import_pkg_caches:
  assumes "import_pkg env ns0 st = Some (Inr ns, st1)"
  shows "package st1 = Some ns"
  using assms by (auto simp: import_pkg_def split: option.splits)

lemma import_pkg_fresh:
  assumes "package st = None" and "import_pkg env ns0 st = Some (Inr ns, st1)"
  shows "load env ns0 (outside st) = Some (None, ns, outside st1)"
  using assms by (auto simp: import_pkg_def split: option.splits)

lemma import_seq_cached:
  assumes "package st = Some ns"
  shows "import_seq env ns0 n st = Some (replicate n (Inr ns), st)"
  by (induction n) (simp_all add: import_pkg_cached [OF assms])

lemma sample_import:
  "import_pkg sample_env [] \<lparr>package = None, outside = 0\<rparr>
     = Some (Inr loaded, \<lparr>package = Some loaded, outside = 3\<rparr>)"
  by (simp add: import_pkg_def sample_load)




lemma load_holds_metadata:
  assumes "load env ns0 w = Some (r, ns, w')"
  shows "holds_metadata ns"
  unfolding holds_metadata_def using load_metadata [OF assms] by (intro conjI)

lemma step_keeps_metadata:
  assumes "step env ns0 a st = Some st'" and "reimports a"
    and "package st = Some ns" and "holds_metadata ns"
  shows "\<exists>ns'. package st' = Some ns' \<and> holds_metadata ns' \<and> (a \<noteq> Reload \<longrightarrow> ns' = ns)"
proof (cases a)
  case Import
  have "import_pkg env ns0 st = Some (Inr ns, st)"
    using assms(3) by (simp add: import_pkg_def)
  with assms(1) Import have "st' = st" by simp
  with assms(3,4) show ?thesis by simp
next
  case Reload
  with assms(1,3) obtain r ns' w' where
    l: "load env ns (outside st) = Some (r, ns', w')" and
    s: "st' = \<lparr>package = Some ns', outside = w'\<rparr>"
    by (auto split: option.splits)
  from load_holds_metadata [OF l] s Reload show ?thesis by simp
next
  case (Elsewhere w)
  with assms(1) have "st' = st\<lparr>outside := w\<rparr>" by simp
  with assms(3,4) show ?thesis by simp
qed (use assms(2) in simp_all)

lemma run_keeps_metadata:
  assumes "run env ns0 as st = Some st'" and "\<forall>a \<in> set as. reimports a"
    and "package st = Some ns" and "holds_metadata ns"
  shows "\<exists>ns'. package st' = Some ns' \<and> holds_metadata ns' \<and> (Reload \<notin> set as \<longrightarrow> ns' = ns)"
  using assms
proof (induction as arbitrary: st ns)
  case Nil
  then show ?case by simp
next
  case (Cons a as)
  from Cons.prems(1) obtain st1 where
    1: "step env ns0 a st = Some st1" and 2: "run env ns0 as st1 = Some st'"
    by (auto split: option.splits)
  from Cons.prems(2) have ra: "reimports a" and ras: "\<forall>a \<in> set as. reimports a" by simp_all
  from step_keeps_metadata [OF 1 ra Cons.prems(3,4)] obtain ns1 where
    p: "package st1 = Some ns1" and h: "holds_metadata ns1" and e: "a \<noteq> Reload \<longrightarrow> ns1 = ns"
    by blast
  from Cons.IH [OF 2 ras p h] obtain ns' where
    "package st' = Some ns'" "holds_metadata ns'" "Reload \<notin> set as \<longrightarrow> ns' = ns1"
    by blast
  with e show ?case by auto
qed








section \<open>The claims\<close>

subsection \<open>Metadata values\<close>

text \<open>
  C1. Whenever the load of the package returns, and so in particular after every load that
  succeeds, \<^verbatim>\<open>__version__\<close> is bound to the string \<^verbatim>\<open>1.0.0\<close> and \<^verbatim>\<open>__package_name__\<close> to the
  string \<^verbatim>\<open>BondForge\<close>. The two names are assigned at lines 13 and 16, and \<open>ns\<close> is the
  namespace left by the last statement that ran: no later statement of the file has changed
  them.
\<close>

theorem version_and_package_name:
  assumes "load env ns0 w = Some (r, ns, w')"
  shows "map_of ns ''__version__'' = Some (Str ''1.0.0'') \<and>
         map_of ns ''__package_name__'' = Some (Str ''BondForge'')"
  using load_metadata(1,4) [OF assms] by (rule conjI)

theorem version_and_package_name_witness:
  "load sample_env [] 0 = Some (None, loaded, 3) \<and>
   map_of loaded ''__version__'' = Some (Str ''1.0.0'') \<and>
   map_of loaded ''__package_name__'' = Some (Str ''BondForge'')"
proof -
  have h: "load sample_env [] 0 = Some (None, loaded, 3)" by (rule sample_load)
  from h version_and_package_name [OF h] show ?thesis by simp
qed

subsection \<open>The names of the loaded package\<close>




subsection \<open>Classes at the package root\<close>

text \<open>
  C3. After a successful load each of the three class names is bound at the package root,
  and it is bound there to the very object that the same name is bound to in the namespace
  of the module it was imported from: \<open>m1\<close>, \<open>m2\<close> and \<open>m3\<close> are the namespaces that the
  three module loads returned, in the order of lines 19 to 21.
\<close>

theorem root_binding_is_module_binding:
  assumes "load env ns0 w = Some (None, ns, w')"
  shows "\<exists>m1 w1 m2 w2 m3 v1 v2 v3.
           env ''interaction_analyzer'' w = Some (Inr m1, w1) \<and>
           env ''extended_interaction_analyzer'' w1 = Some (Inr m2, w2) \<and>
           env ''interaction_visualizer'' w2 = Some (Inr m3, w') \<and>
           map_of m1 ''ProteinInteractionAnalyzer'' = Some v1 \<and>
           map_of ns ''ProteinInteractionAnalyzer'' = Some v1 \<and>
           map_of m2 ''ExtendedProteinInteractionAnalyzer'' = Some v2 \<and>
           map_of ns ''ExtendedProteinInteractionAnalyzer'' = Some v2 \<and>
           map_of m3 ''InteractionVisualizer'' = Some v3 \<and>
           map_of ns ''InteractionVisualizer'' = Some v3"
proof -
  from load_classes [OF assms] obtain v1 w1 v2 w2 v3 where
    i1: "import_resolves env ''interaction_analyzer'' ''ProteinInteractionAnalyzer'' w v1 w1" and
    i2: "import_resolves env ''extended_interaction_analyzer''
           ''ExtendedProteinInteractionAnalyzer'' w1 v2 w2" and
    i3: "import_resolves env ''interaction_visualizer'' ''InteractionVisualizer'' w2 v3 w'" and
    v: "map_of ns ''ProteinInteractionAnalyzer'' = Some v1"
      "map_of ns ''ExtendedProteinInteractionAnalyzer'' = Some v2"
      "map_of ns ''InteractionVisualizer'' = Some v3"
    by (elim exE conjE)
  from i1 obtain m1 where m1: "env ''interaction_analyzer'' w = Some (Inr m1, w1)"
    "map_of m1 ''ProteinInteractionAnalyzer'' = Some v1"
    unfolding import_resolves_def by (elim exE conjE)
  from i2 obtain m2 where m2: "env ''extended_interaction_analyzer'' w1 = Some (Inr m2, w2)"
    "map_of m2 ''ExtendedProteinInteractionAnalyzer'' = Some v2"
    unfolding import_resolves_def by (elim exE conjE)
  from i3 obtain m3 where m3: "env ''interaction_visualizer'' w2 = Some (Inr m3, w')"
    "map_of m3 ''InteractionVisualizer'' = Some v3"
    unfolding import_resolves_def by (elim exE conjE)
  from m1 m2 m3 v show ?thesis by (intro exI conjI)
qed

theorem root_binding_is_module_binding_witness:
  "load sample_env [] 0 = Some (None, loaded, 3) \<and>
   (\<exists>m1 w1 m2 w2 m3 v1 v2 v3.
      sample_env ''interaction_analyzer'' 0 = Some (Inr m1, w1) \<and>
      sample_env ''extended_interaction_analyzer'' w1 = Some (Inr m2, w2) \<and>
      sample_env ''interaction_visualizer'' w2 = Some (Inr m3, 3) \<and>
      map_of m1 ''ProteinInteractionAnalyzer'' = Some v1 \<and>
      map_of loaded ''ProteinInteractionAnalyzer'' = Some v1 \<and>
      map_of m2 ''ExtendedProteinInteractionAnalyzer'' = Some v2 \<and>
      map_of loaded ''ExtendedProteinInteractionAnalyzer'' = Some v2 \<and>
      map_of m3 ''InteractionVisualizer'' = Some v3 \<and>
      map_of loaded ''InteractionVisualizer'' = Some v3)"
proof -
  have h: "load sample_env [] 0 = Some (None, loaded, 3)" by (rule sample_load)
  from h root_binding_is_module_binding [OF h] show ?thesis by (rule conjI)
qed

subsection \<open>Failure of the load\<close>

text \<open>
  C4, as the code has it. The load of the package raises \<open>e\<close> exactly when one of the three
  import statements, run in order, raises \<open>e\<close> after the ones before it have resolved their
  class. An import statement raises in one of two ways (\<^const>\<open>import_raises\<close>): the load
  of the sibling module raises \<open>e\<close>, which passes through unchanged since the file has no
  handler; or the sibling module loads but does not define the class, and the statement
  raises an \<open>ImportError\<close> of its own. The load succeeds exactly when all three statements
  resolve their class. The claim leaves out the second way: in the counterexample all three
  sibling modules load, and the load of the package still fails.
\<close>

theorem load_outcome:
  "((\<exists>ns. load env ns0 w = Some (Some e, ns, w')) \<longleftrightarrow>
      import_raises env ''interaction_analyzer'' ''ProteinInteractionAnalyzer'' w e w' \<or>
      (\<exists>v1 w1.
         import_resolves env ''interaction_analyzer'' ''ProteinInteractionAnalyzer'' w v1 w1 \<and>
         (import_raises env ''extended_interaction_analyzer''
            ''ExtendedProteinInteractionAnalyzer'' w1 e w' \<or>
          (\<exists>v2 w2.
             import_resolves env ''extended_interaction_analyzer''
               ''ExtendedProteinInteractionAnalyzer'' w1 v2 w2 \<and>
             import_raises env ''interaction_visualizer'' ''InteractionVisualizer'' w2 e w')))) \<and>
   ((\<exists>ns. load env ns0 w = Some (None, ns, w')) \<longleftrightarrow>
      (\<exists>v1 w1 v2 w2 v3.
         import_resolves env ''interaction_analyzer'' ''ProteinInteractionAnalyzer'' w v1 w1 \<and>
         import_resolves env ''extended_interaction_analyzer''
           ''ExtendedProteinInteractionAnalyzer'' w1 v2 w2 \<and>
         import_resolves env ''interaction_visualizer'' ''InteractionVisualizer'' w2 v3 w'))"
proof
  show "(\<exists>ns. load env ns0 w = Some (Some e, ns, w')) \<longleftrightarrow>
      import_raises env ''interaction_analyzer'' ''ProteinInteractionAnalyzer'' w e w' \<or>
      (\<exists>v1 w1.
         import_resolves env ''interaction_analyzer'' ''ProteinInteractionAnalyzer'' w v1 w1 \<and>
         (import_raises env ''extended_interaction_analyzer''
            ''ExtendedProteinInteractionAnalyzer'' w1 e w' \<or>
          (\<exists>v2 w2.
             import_resolves env ''extended_interaction_analyzer''
               ''ExtendedProteinInteractionAnalyzer'' w1 v2 w2 \<and>
             import_raises env ''interaction_visualizer'' ''InteractionVisualizer'' w2 e w')))"
    by (rule load_raise_iff)
next
  show "(\<exists>ns. load env ns0 w = Some (None, ns, w')) \<longleftrightarrow>
      (\<exists>v1 w1 v2 w2 v3.
         import_resolves env ''interaction_analyzer'' ''ProteinInteractionAnalyzer'' w v1 w1 \<and>
         import_resolves env ''extended_interaction_analyzer''
           ''ExtendedProteinInteractionAnalyzer'' w1 v2 w2 \<and>
         import_resolves env ''interaction_visualizer'' ''InteractionVisualizer'' w2 v3 w')"
    unfolding load_ok_iff by blast
qed

theorem load_outcome_witness:
  "import_resolves broken_env ''interaction_analyzer'' ''ProteinInteractionAnalyzer'' 0 (Obj 1) 1 \<and>
   import_raises broken_env ''extended_interaction_analyzer'' ''ExtendedProteinInteractionAnalyzer''
     1 (PyExc ''ModuleNotFoundError'') 2 \<and>
   (\<exists>ns. load broken_env [] 0 = Some (Some (PyExc ''ModuleNotFoundError''), ns, 2))"
proof -
  have 1: "import_resolves broken_env ''interaction_analyzer'' ''ProteinInteractionAnalyzer''
             0 (Obj 1) 1"
    by (simp add: import_resolves_def broken_env_def sample_env_def)
  have 2: "import_raises broken_env ''extended_interaction_analyzer''
             ''ExtendedProteinInteractionAnalyzer'' 1 (PyExc ''ModuleNotFoundError'') 2"
    by (simp add: import_raises_def broken_env_def)
  note t = load_outcome [of broken_env "[]" 0 "PyExc ''ModuleNotFoundError''" 2,
      THEN conjunct1, THEN iffD2]
  have "\<exists>ns. load broken_env [] 0 = Some (Some (PyExc ''ModuleNotFoundError''), ns, 2)"
    by (rule t, rule disjI2, rule exI, rule exI, rule conjI, rule 1, rule disjI1, rule 2)
  with 1 2 show ?thesis by (intro conjI)
qed

theorem own_import_error_counterexample:
  "(\<exists>m1 m2 m3.
      noname_env ''interaction_analyzer'' 0 = Some (Inr m1, 1) \<and>
      noname_env ''extended_interaction_analyzer'' 1 = Some (Inr m2, 2) \<and>
      noname_env ''interaction_visualizer'' 2 = Some (Inr m3, 3)) \<and>
   load noname_env [] 0 =
     Some (Some (ImportError ''ProteinInteractionAnalyzer'' ''interaction_analyzer''),
           assigned @ [(''interaction_analyzer'', Module ''interaction_analyzer'')], 1)"
  by (simp add: noname_env_def sample_env_def load_def init_body_def bind_def assigned_def)

subsection \<open>Importing again\<close>

text \<open>
  C5, as the code has it. If the first import of the package in a process succeeds with the
  namespace \<open>ns\<close>, then any number \<open>n\<close> of further imports, whatever the sibling modules
  would do by then, each return this same namespace and leave the process state \<open>st1\<close> as
  the first import left it. \<open>ns\<close> is the namespace the file produced: the five metadata
  names hold their literals and the class names hold the objects that the sibling modules
  provided during the first import. The claim speaks of every sequence of imports; when the
  first import fails the package is not cached and the next import runs the file again, as
  the counterexample shows: the outside state moves from 2 to 4.
\<close>

theorem reimport_after_success:
  assumes "package st = None" and "import_pkg env ns0 st = Some (Inr ns, st1)"
  shows "import_seq env' ns0' n st1 = Some (replicate n (Inr ns), st1) \<and>
         load env ns0 (outside st) = Some (None, ns, outside st1) \<and>
         map_of ns ''__version__'' = Some (Str ''1.0.0'') \<and>
         map_of ns ''__author__'' = Some (Str ''Ayeh Bolouki'') \<and>
         map_of ns ''__email__'' = Some (Str ''ayehbolouki1988@gmail.com'') \<and>
         map_of ns ''__package_name__'' = Some (Str ''BondForge'') \<and>
         map_of ns ''__tagline__'' = Some (Str ''Forging Insights from Chemical Bonds'') \<and>
         (\<exists>v1 w1 v2 w2 v3.
            import_resolves env ''interaction_analyzer'' ''ProteinInteractionAnalyzer''
              (outside st) v1 w1 \<and>
            import_resolves env ''extended_interaction_analyzer''
              ''ExtendedProteinInteractionAnalyzer'' w1 v2 w2 \<and>
            import_resolves env ''interaction_visualizer'' ''InteractionVisualizer''
              w2 v3 (outside st1) \<and>
            map_of ns ''ProteinInteractionAnalyzer'' = Some v1 \<and>
            map_of ns ''ExtendedProteinInteractionAnalyzer'' = Some v2 \<and>
            map_of ns ''InteractionVisualizer'' = Some v3)"
proof -
  have s: "import_seq env' ns0' n st1 = Some (replicate n (Inr ns), st1)"
    by (rule import_seq_cached) (rule import_pkg_caches [OF assms(2)])
  have l: "load env ns0 (outside st) = Some (None, ns, outside st1)"
    using assms by (rule import_pkg_fresh)
  from load_classes [OF l] have c: "\<exists>v1 w1 v2 w2 v3.
            import_resolves env ''interaction_analyzer'' ''ProteinInteractionAnalyzer''
              (outside st) v1 w1 \<and>
            import_resolves env ''extended_interaction_analyzer''
              ''ExtendedProteinInteractionAnalyzer'' w1 v2 w2 \<and>
            import_resolves env ''interaction_visualizer'' ''InteractionVisualizer''
              w2 v3 (outside st1) \<and>
            map_of ns ''ProteinInteractionAnalyzer'' = Some v1 \<and>
            map_of ns ''ExtendedProteinInteractionAnalyzer'' = Some v2 \<and>
            map_of ns ''InteractionVisualizer'' = Some v3"
    by blast
  from s l load_metadata [OF l] c show ?thesis by (intro conjI)
qed

theorem reimport_after_success_witness:
  "package \<lparr>package = None, outside = (0::nat)\<rparr> = None \<and>
   import_pkg sample_env [] \<lparr>package = None, outside = 0\<rparr>
     = Some (Inr loaded, \<lparr>package = Some loaded, outside = 3\<rparr>) \<and>
   import_seq broken_env [] 2 \<lparr>package = Some loaded, outside = 3\<rparr>
     = Some ([Inr loaded, Inr loaded], \<lparr>package = Some loaded, outside = 3\<rparr>) \<and>
   map_of loaded ''__version__'' = Some (Str ''1.0.0'')"
proof -
  have a: "package \<lparr>package = None, outside = (0::nat)\<rparr> = None" by simp
  have h: "import_pkg sample_env [] \<lparr>package = None, outside = 0\<rparr>
     = Some (Inr loaded, \<lparr>package = Some loaded, outside = 3\<rparr>)"
    by (rule sample_import)
  have r: "replicate 2 (Inr loaded :: exn + namespace) = [Inr loaded, Inr loaded]"
    by (simp add: numeral_2_eq_2)
  note t = reimport_after_success [OF a h, of broken_env "[]" 2, unfolded r]
  from t have 1: "import_seq broken_env [] 2 \<lparr>package = Some loaded, outside = 3\<rparr>
     = Some ([Inr loaded, Inr loaded], \<lparr>package = Some loaded, outside = 3\<rparr>)"
    by (rule conjunct1)
  from t have 2: "map_of loaded ''__version__'' = Some (Str ''1.0.0'')"
    by (elim conjE)
  from a h 1 2 show ?thesis by (intro conjI)
qed

theorem failed_import_reruns_counterexample:
  "import_pkg broken_env [] \<lparr>package = None, outside = 0\<rparr>
     = Some (Inl (PyExc ''ModuleNotFoundError''), \<lparr>package = None, outside = 2\<rparr>) \<and>
   import_pkg broken_env [] \<lparr>package = None, outside = 2\<rparr>
     = Some (Inl (PyExc ''ModuleNotFoundError''), \<lparr>package = None, outside = 4\<rparr>)"
proof -
  have l: "load broken_env [] 2 = Some (Some (PyExc ''ModuleNotFoundError''), half_loaded, 4)"
    by (simp add: load_def init_body_def broken_env_def sample_env_def bind_def half_loaded_def
        assigned_def)
  have 1: "import_pkg broken_env [] \<lparr>package = None, outside = 0\<rparr>
     = Some (Inl (PyExc ''ModuleNotFoundError''), \<lparr>package = None, outside = 2\<rparr>)"
    by (simp add: import_pkg_def broken_load)
  have 2: "import_pkg broken_env [] \<lparr>package = None, outside = 2\<rparr>
     = Some (Inl (PyExc ''ModuleNotFoundError''), \<lparr>package = None, outside = 4\<rparr>)"
    by (simp add: import_pkg_def l)
  from 1 2 show ?thesis by (rule conjI)
qed

subsection \<open>Frame of the load\<close>

text \<open>
  C6. The statements of the file have no effect of their own outside the namespace of the
  package. Every name other than the thirteen that the file binds keeps the binding, or the
  absence of a binding, it had in \<open>ns0\<close>. The outside state changes only through the three
  module loads: any reflexive and transitive relation \<open>R\<close> on outside states that every
  module load respects holds between the state before and the state after the load of the
  package. With equality for \<open>R\<close>: if the module loads leave the outside state as it is, so
  does the load of the package.
\<close>

theorem load_frame:
  assumes "load env ns0 w = Some (r, ns, w')"
    and "\<forall>m v q v'. env m v = Some (q, v') \<longrightarrow> R v v'"
    and "reflp R" and "transp R"
  shows "R w w' \<and>
         (\<forall>x. x \<notin> {''__doc__''} \<union> set metadata_names \<union> set module_names \<union> set class_names \<union>
                  {''__all__''} \<longrightarrow>
              map_of ns x = map_of ns0 x)"
proof
  from assms show "R w w'"
    unfolding load_def by (rule exec_rel)
next
  show "\<forall>x. x \<notin> {''__doc__''} \<union> set metadata_names \<union> set module_names \<union> set class_names \<union>
                  {''__all__''} \<longrightarrow>
             map_of ns x = map_of ns0 x"
  proof (intro allI impI)
    fix x
    assume a: "x \<notin> {''__doc__''} \<union> set metadata_names \<union> set module_names \<union> set class_names \<union>
                  {''__all__''}"
    have "x \<notin> set (concat (map targets init_body))"
      unfolding names_init_body by (rule a)
    with assms(1) show "map_of ns x = map_of ns0 x"
      unfolding load_def by (rule exec_frame)
  qed
qed

theorem load_frame_witness:
  "load sample_env [(''__name__'', Str ''src'')] 0
     = Some (None, (''__name__'', Str ''src'') # loaded, 3) \<and>
   (0::nat) \<le> 3 \<and>
   map_of ((''__name__'', Str ''src'') # loaded) ''__name__'' = Some (Str ''src'') \<and>
   map_of ((''__name__'', Str ''src'') # loaded) ''__file__'' = None"
proof -
  let ?ns0 = "[(''__name__'', Str ''src'')]"
  let ?S = "{''__doc__''} \<union> set metadata_names \<union> set module_names \<union> set class_names \<union>
              {''__all__''}"
  have h: "load sample_env ?ns0 0 = Some (None, (''__name__'', Str ''src'') # loaded, 3)"
    by (simp add: load_def init_body_def sample_env_def bind_def loaded_def assigned_def)
  have e: "\<forall>m v q v'. sample_env m v = Some (q, v') \<longrightarrow> v \<le> v'"
    by (auto simp: sample_env_def split: if_splits)
  have n: "''__name__'' \<notin> ?S" "''__file__'' \<notin> ?S"
    by (simp_all add: metadata_names_def module_names_def class_names_def imported_def)
  note t = load_frame [OF h e reflp_on_le transp_on_le]
  from t have 1: "(0::nat) \<le> 3" by (rule conjunct1)
  from t have f: "\<forall>x. x \<notin> ?S \<longrightarrow>
      map_of ((''__name__'', Str ''src'') # loaded) x = map_of ?ns0 x"
    by (rule conjunct2)
  from f n(1) have 2: "map_of ((''__name__'', Str ''src'') # loaded) ''__name__'' = map_of ?ns0 ''__name__''"
    by (elim allE impE) assumption+
  from f n(2) have 3: "map_of ((''__name__'', Str ''src'') # loaded) ''__file__'' = map_of ?ns0 ''__file__''"
    by (elim allE impE) assumption+
  from h 1 2 3 show ?thesis by simp
qed

subsection \<open>The bindings afterwards\<close>

text \<open>
  C7, as the code has it. Let the first import of the package succeed with namespace \<open>ns\<close>,
  and let the process go on with steps that only import or reload the package or change
  state outside it. Then the package stays cached and the five metadata names keep their
  literal values; if no step is a reload, the cached namespace is \<open>ns\<close> itself, so the three
  class names also hold the objects bound at load time. The file has no mechanism that
  protects its bindings: in the counterexample a client assigns \<^verbatim>\<open>__version__\<close>, and another
  removes the package from the cache, so the claim does not hold of every reachable state.
\<close>

theorem bindings_persist:
  assumes "package st = None"
    and "import_pkg env ns0 st = Some (Inr ns, st1)"
    and "run env' ns0' as st1 = Some st2"
    and "\<forall>a \<in> set as. reimports a"
  shows "\<exists>ns2. package st2 = Some ns2 \<and>
           map_of ns2 ''__version__'' = Some (Str ''1.0.0'') \<and>
           map_of ns2 ''__author__'' = Some (Str ''Ayeh Bolouki'') \<and>
           map_of ns2 ''__email__'' = Some (Str ''ayehbolouki1988@gmail.com'') \<and>
           map_of ns2 ''__package_name__'' = Some (Str ''BondForge'') \<and>
           map_of ns2 ''__tagline__'' = Some (Str ''Forging Insights from Chemical Bonds'') \<and>
           (Reload \<notin> set as \<longrightarrow> ns2 = ns)"
proof -
  have l: "load env ns0 (outside st) = Some (None, ns, outside st1)"
    using assms(1,2) by (rule import_pkg_fresh)
  have p: "package st1 = Some ns"
    using assms(2) by (rule import_pkg_caches)
  from run_keeps_metadata [OF assms(3,4) p load_holds_metadata [OF l]]
  show ?thesis unfolding holds_metadata_def by blast
qed

theorem bindings_persist_witness:
  "package \<lparr>package = None, outside = (0::nat)\<rparr> = None \<and>
   import_pkg sample_env [] \<lparr>package = None, outside = 0\<rparr>
     = Some (Inr loaded, \<lparr>package = Some loaded, outside = 3\<rparr>) \<and>
   run broken_env [] [Import, Elsewhere 7, Import] \<lparr>package = Some loaded, outside = 3\<rparr>
     = Some \<lparr>package = Some loaded, outside = 7\<rparr> \<and>
   map_of loaded ''__version__'' = Some (Str ''1.0.0'') \<and>
   map_of loaded ''__tagline__'' = Some (Str ''Forging Insights from Chemical Bonds'')"
proof -
  let ?st1 = "\<lparr>package = Some loaded, outside = (3::nat)\<rparr>"
  let ?as = "[Import, Elsewhere 7, Import] :: nat action list"
  have a: "package \<lparr>package = None, outside = (0::nat)\<rparr> = None" by simp
  have b: "import_pkg sample_env [] \<lparr>package = None, outside = 0\<rparr> = Some (Inr loaded, ?st1)"
    by (rule sample_import)
  have c: "run broken_env [] ?as ?st1 = Some \<lparr>package = Some loaded, outside = 7\<rparr>"
    by (simp add: import_pkg_def)
  have d: "\<forall>a \<in> set ?as. reimports a" by simp
  have e: "Reload \<notin> set ?as" by simp
  from bindings_persist [OF a b c d] e
  have "map_of loaded ''__version__'' = Some (Str ''1.0.0'')"
    "map_of loaded ''__tagline__'' = Some (Str ''Forging Insights from Chemical Bonds'')"
    by auto
  with a b c show ?thesis by (intro conjI)
qed

theorem rebinding_counterexample:
  "package \<lparr>package = None, outside = (0::nat)\<rparr> = None \<and>
   import_pkg sample_env [] \<lparr>package = None, outside = 0\<rparr>
     = Some (Inr loaded, \<lparr>package = Some loaded, outside = 3\<rparr>) \<and>
   run sample_env [] [SetAttr ''__version__'' (Str ''2.0.0'')] \<lparr>package = Some loaded, outside = 3\<rparr>
     = Some \<lparr>package = Some (bind ''__version__'' (Str ''2.0.0'') loaded), outside = 3\<rparr> \<and>
   map_of (bind ''__version__'' (Str ''2.0.0'') loaded) ''__version__'' = Some (Str ''2.0.0'') \<and>
   map_of loaded ''__version__'' = Some (Str ''1.0.0'') \<and>
   run sample_env [] [Uncache] \<lparr>package = Some loaded, outside = 3\<rparr>
     = Some \<lparr>package = None, outside = 3\<rparr>"
  by (simp add: sample_import map_of_bind) (simp add: loaded_def assigned_def)

subsection \<open>A straight-line run that terminates\<close>



subsection \<open>The namespace at a failed import\<close>




subsection \<open>The export list\<close>

text \<open>
  C10. After a successful load \<^verbatim>\<open>__all__\<close> is the list of the three class names, without
  repetition, and each of them is bound in the package. A star import therefore yields
  these three bindings, in this order, and none of the five metadata names.
\<close>

theorem star_import_classes:
  assumes "load env ns0 w = Some (None, ns, w')"
  shows "map_of ns ''__all__'' =
           Some (StrList [''ProteinInteractionAnalyzer'', ''ExtendedProteinInteractionAnalyzer'',
                          ''InteractionVisualizer'']) \<and>
         distinct [''ProteinInteractionAnalyzer'', ''ExtendedProteinInteractionAnalyzer'',
                   ''InteractionVisualizer''] \<and>
         (\<exists>v1 v2 v3.
            map_of ns ''ProteinInteractionAnalyzer'' = Some v1 \<and>
            map_of ns ''ExtendedProteinInteractionAnalyzer'' = Some v2 \<and>
            map_of ns ''InteractionVisualizer'' = Some v3 \<and>
            star_import ns =
              Inr [(''ProteinInteractionAnalyzer'', v1), (''ExtendedProteinInteractionAnalyzer'', v2),
                   (''InteractionVisualizer'', v3)]) \<and>
         (\<exists>bs. star_import ns = Inr bs \<and> set metadata_names \<inter> fst ` set bs = {})"
proof -
  from load_classes [OF assms] obtain v1 v2 v3 where
    v: "map_of ns ''ProteinInteractionAnalyzer'' = Some v1"
      "map_of ns ''ExtendedProteinInteractionAnalyzer'' = Some v2"
      "map_of ns ''InteractionVisualizer'' = Some v3" and
    a: "map_of ns ''__all__'' = Some (StrList class_names)"
    by (elim exE conjE)
  have all: "map_of ns ''__all__'' =
           Some (StrList [''ProteinInteractionAnalyzer'', ''ExtendedProteinInteractionAnalyzer'',
                          ''InteractionVisualizer''])"
    using a by (simp add: class_names_def imported_def)
  have s: "star_import ns =
              Inr [(''ProteinInteractionAnalyzer'', v1), (''ExtendedProteinInteractionAnalyzer'', v2),
                   (''InteractionVisualizer'', v3)]"
    unfolding star_import_def all using export_class_names [OF v] by simp
  have m: "set metadata_names \<inter> fst ` set [(''ProteinInteractionAnalyzer'', v1),
             (''ExtendedProteinInteractionAnalyzer'', v2), (''InteractionVisualizer'', v3)] = {}"
    by (simp add: metadata_names_def)
  have d: "distinct [''ProteinInteractionAnalyzer'', ''ExtendedProteinInteractionAnalyzer'',
                   ''InteractionVisualizer'']"
    by simp
  from all d v s m show ?thesis by blast
qed

theorem star_import_classes_witness:
  "load sample_env [] 0 = Some (None, loaded, 3) \<and>
   map_of loaded ''__all__'' =
     Some (StrList [''ProteinInteractionAnalyzer'', ''ExtendedProteinInteractionAnalyzer'',
                    ''InteractionVisualizer'']) \<and>
   star_import loaded =
     Inr [(''ProteinInteractionAnalyzer'', Obj 1), (''ExtendedProteinInteractionAnalyzer'', Obj 2),
          (''InteractionVisualizer'', Obj 3)]"
proof -
  have h: "load sample_env [] 0 = Some (None, loaded, 3)" by (rule sample_load)
  have v: "map_of loaded ''ProteinInteractionAnalyzer'' = Some (Obj 1)"
    "map_of loaded ''ExtendedProteinInteractionAnalyzer'' = Some (Obj 2)"
    "map_of loaded ''InteractionVisualizer'' = Some (Obj 3)"
    by (simp_all add: loaded_def assigned_def)
  from star_import_classes [OF h] v have "star_import loaded =
     Inr [(''ProteinInteractionAnalyzer'', Obj 1), (''ExtendedProteinInteractionAnalyzer'', Obj 2),
          (''InteractionVisualizer'', Obj 3)]"
    by auto
  with h star_import_classes [OF h] show ?thesis by blast
qed

end
